theory Spec2Isabelle
  imports Main "HOL-Library.Sublist"
begin

section \<open>Python values used by the server\<close>

text \<open>
  The server (\<^verbatim>\<open>src/mcp_server.py\<close>) is a set of four tool handlers over one
  asyncpg connection per call. A Python string is modelled as a \<^typ>\<open>string\<close> of
  Latin-1 characters, a \<^typ>\<open>char\<close> being the code point; text with a character
  beyond U+00FF is outside the model, and so is text with one of the three Latin-1
  letters whose capital is not a single Latin-1 character (U+00B5, U+00DF, U+00FF),
  which \<open>upper_char\<close> leaves as they are.
  Log lines are not modelled: none changes a result, and the one that can raise
  (\<^verbatim>\<open>query_upper.split()[0]\<close> on the mutation path) raises what the return expression
  after it raises.
\<close>

definition isspace :: "char \<Rightarrow> bool" where
  \<comment> \<open>\<^verbatim>\<open>str.isspace\<close>, the whitespace of \<^verbatim>\<open>strip\<close> and \<^verbatim>\<open>split\<close>: TAB, LF, VT, FF, CR, FS, GS,
      RS, US, SPACE, NEL (U+0085) and NBSP (U+00A0).\<close>
  "isspace c = (of_char c \<in> {9, 10, 11, 12, 13, 28, 29, 30, 31, 32, 133, 160 :: nat})"

definition upper_char :: "char \<Rightarrow> char" where
  \<comment> \<open>the capital of \<open>a\<close> to \<open>z\<close> and of the Latin-1 letters U+00E0 to U+00FE (U+00F7, the
      division sign, is no letter) is 32 code points below\<close>
  "upper_char c =
     (let n = (of_char c :: nat)
      in if (97 \<le> n \<and> n \<le> 122) \<or> (224 \<le> n \<and> n \<le> 254 \<and> n \<noteq> 247)
         then char_of (n - 32) else c)"

definition pyupper :: "string \<Rightarrow> string" where
  \<comment> \<open>\<^verbatim>\<open>s.upper()\<close>\<close>
  "pyupper s = map upper_char s"

definition pystrip :: "string \<Rightarrow> string" where
  \<comment> \<open>\<^verbatim>\<open>s.strip()\<close>: whitespace removed at both ends.\<close>
  "pystrip s = rev (dropWhile isspace (rev (dropWhile isspace s)))"

definition startswith :: "string \<Rightarrow> string \<Rightarrow> bool" where
  \<comment> \<open>\<^verbatim>\<open>s.startswith(p)\<close>\<close>
  "startswith s p = (take (length p) s = p)"

function pysplit :: "string \<Rightarrow> string list" where
  \<comment> \<open>\<^verbatim>\<open>s.split()\<close>: the maximal runs of non-whitespace, in order.\<close>
  "pysplit s =
     (case dropWhile isspace s of
        [] \<Rightarrow> []
      | c # cs \<Rightarrow>
          takeWhile (\<lambda>x. \<not> isspace x) (c # cs) # pysplit (dropWhile (\<lambda>x. \<not> isspace x) (c # cs)))"
  by pat_completeness auto
termination
proof (relation "measure length")
  show "wf (measure length)"
    by simp
next
  fix s :: string and c cs
  assume a: "dropWhile isspace s = c # cs"
  have "\<not> isspace c"
    using a by (metis hd_dropWhile list.distinct(1) list.sel(1))
  then have "length (dropWhile (\<lambda>x. \<not> isspace x) (c # cs)) \<le> length cs"
    by (simp add: length_dropWhile_le)
  moreover have "length (c # cs) \<le> length s"
    using a by (metis length_dropWhile_le)
  ultimately show "(dropWhile (\<lambda>x. \<not> isspace x) (c # cs), s) \<in> measure length"
    by simp
qed

declare pysplit.simps [simp del]

datatype exn =
    PostgresError string
  | IndexError string
  | TypeError string
  | ValueError string

fun str :: "exn \<Rightarrow> string" where
  \<comment> \<open>\<^verbatim>\<open>str(e)\<close>: every exception carries its message.\<close>
  "str (PostgresError m) = m"
| "str (IndexError m) = m"
| "str (TypeError m) = m"
| "str (ValueError m) = m"

definition subscript_first :: "'a list \<Rightarrow> exn + 'a" where
  \<comment> \<open>\<^verbatim>\<open>xs[0]\<close>\<close>
  "subscript_first xs =
     (case xs of [] \<Rightarrow> Inl (IndexError ''list index out of range'') | x # _ \<Rightarrow> Inr x)"

definition subscript_last :: "'a list \<Rightarrow> exn + 'a" where
  \<comment> \<open>\<^verbatim>\<open>xs[-1]\<close>\<close>
  "subscript_last xs =
     (case xs of [] \<Rightarrow> Inl (IndexError ''list index out of range'') | _ # _ \<Rightarrow> Inr (last xs))"

datatype json =
    JNull
  | JBool bool
  | JInt int
  | JStr string
  | JList "json list"
  | JObj "(string \<times> json) list"

text \<open>
  A handler returns \<^verbatim>\<open>json.dumps(d, indent=2)\<close> of a dict \<open>d\<close>; the model returns
  \<open>d\<close> itself, as a \<^const>\<open>JObj\<close> whose fields are in the order the code writes them.
\<close>

datatype pyval =
    PNone
  | PBool bool
  | PInt int
  | PStr string
  | POther string

fun to_json :: "pyval \<Rightarrow> json" where
  \<comment> \<open>\<^verbatim>\<open>default=str\<close>: a value JSON does not know is written as its text.\<close>
  "to_json PNone = JNull"
| "to_json (PBool b) = JBool b"
| "to_json (PInt i) = JInt i"
| "to_json (PStr s) = JStr s"
| "to_json (POther s) = JStr s"

section \<open>The database driver\<close>

record column_row =
  column_name :: string
  data_type :: string
  character_maximum_length :: "int option"
  is_nullable :: string
  column_default :: "string option"

record fk_row =
  fk_column_name :: string
  foreign_table_name :: string
  foreign_column_name :: string

type_synonym row = "(string \<times> pyval) list"

text \<open>
  The driver is the environment of the handlers, with the catalog and the behaviour of
  PostgreSQL and asyncpg: a \<open>character_maximum_length\<close> is null or at least 1, and
  \<^verbatim>\<open>conn.execute\<close> returns a status only for a statement that has a token (on a blank
  statement it raises). The theorems that need one of these facts take it as a
  hypothesis. \<open>connect\<close> is the outcome of
  \<^verbatim>\<open>asyncpg.connect\<close> (\<open>None\<close>: a connection; \<open>Some e\<close>: it raises \<open>e\<close>). The three
  catalog queries of the handlers are fixed SQL texts, so \<^verbatim>\<open>conn.fetch\<close> on them is
  one typed function each, taking the bound parameters; \<open>fetch\<close> and \<open>execute\<close> are
  \<^verbatim>\<open>conn.fetch\<close> and \<^verbatim>\<open>conn.execute\<close> on the caller's query. Each may raise.
  \<^verbatim>\<open>conn.close()\<close> is taken not to raise.
\<close>

record driver =
  connect :: "exn option"
  fetch_tables :: "string \<Rightarrow> exn + string list"
  fetch_columns :: "string \<Rightarrow> string \<Rightarrow> exn + column_row list"
  fetch_pks :: "string \<Rightarrow> exn + string list"
  fetch_fks :: "string \<Rightarrow> string \<Rightarrow> exn + fk_row list"
  fetch :: "string \<Rightarrow> pyval list \<Rightarrow> exn + row list"
  execute :: "string \<Rightarrow> pyval list \<Rightarrow> exn + string option"

datatype event =
    Connect
  | FetchTables string
  | FetchColumns string string
  | FetchPks string
  | FetchFks string string
  | Fetch string "pyval list"
  | Execute string "pyval list"
  | Close

text \<open>
  A handler run is its outcome (\<open>Inl e\<close>: the exception \<open>e\<close> reaches the caller;
  \<open>Inr d\<close>: the payload \<open>d\<close> is returned) and the driver calls it made, in order.
\<close>

type_synonym run = "(exn + json) \<times> event list"

definition get_db_connection :: "driver \<Rightarrow> exn + unit" where
  "get_db_connection d = (case connect d of Some e \<Rightarrow> Inl e | None \<Rightarrow> Inr ())"

definition error_response :: "string \<Rightarrow> json" where
  "error_response msg = JObj [(''error'', JStr msg), (''status'', JStr ''failed'')]"

section \<open>list_tables\<close>

definition list_tables_try :: "driver \<Rightarrow> string \<Rightarrow> run" where
  "list_tables_try d schema_name =
     (case fetch_tables d schema_name of
        Inl e \<Rightarrow> (Inl e, [FetchTables schema_name])
      | Inr tables \<Rightarrow>
          (Inr (JObj [(''schema'', JStr schema_name),
                      (''tables'', JList (map JStr tables)),
                      (''count'', JInt (int (length tables)))]),
           [FetchTables schema_name]))"

definition list_tables :: "driver \<Rightarrow> string \<Rightarrow> run" where
  \<comment> \<open>\<^verbatim>\<open>except Exception: raise\<close>, \<^verbatim>\<open>finally: conn.close()\<close>\<close>
  "list_tables d schema_name =
     (case get_db_connection d of
        Inl e \<Rightarrow> (Inl e, [Connect])
      | Inr conn \<Rightarrow>
          (case list_tables_try d schema_name of
             (Inl e, tr) \<Rightarrow> (Inl e, Connect # tr @ [Close])
           | (Inr p, tr) \<Rightarrow> (Inr p, Connect # tr @ [Close])))"

section \<open>get_table_schema\<close>

definition truthy_int :: "int option \<Rightarrow> bool" where
  \<comment> \<open>the truth value of an \<^verbatim>\<open>Optional[int]\<close>: neither \<^verbatim>\<open>None\<close> nor 0\<close>
  "truthy_int v = (case v of None \<Rightarrow> False | Some n \<Rightarrow> n \<noteq> 0)"

definition col_dict :: "string list \<Rightarrow> column_row \<Rightarrow> (string \<times> json) list" where
  "col_dict primary_keys col =
     [(''name'', JStr (column_name col)),
      (''type'', JStr (data_type col)),
      (''nullable'', JBool (is_nullable col = ''YES'')),
      (''default'', (case column_default col of None \<Rightarrow> JNull | Some v \<Rightarrow> JStr v)),
      (''is_primary_key'', JBool (column_name col \<in> set primary_keys))]
     @ (if truthy_int (character_maximum_length col)
        then [(''max_length'', (case character_maximum_length col of
                                  None \<Rightarrow> JNull | Some n \<Rightarrow> JInt n))]
        else [])"

definition foreign_key :: "fk_row \<Rightarrow> json" where
  "foreign_key fk =
     JObj [(''column'', JStr (fk_column_name fk)),
           (''references_table'', JStr (foreign_table_name fk)),
           (''references_column'', JStr (foreign_column_name fk))]"

definition not_found_message :: "string \<Rightarrow> string \<Rightarrow> string" where
  \<comment> \<open>\<^verbatim>\<open>f"Table '{table_name}' not found in schema '{schema_name}'"\<close>\<close>
  "not_found_message table_name schema_name =
     ''Table '' @ [CHR 0x27] @ table_name @ [CHR 0x27] @ '' not found in schema ''
       @ [CHR 0x27] @ schema_name @ [CHR 0x27]"

definition get_table_schema_try :: "driver \<Rightarrow> string \<Rightarrow> string \<Rightarrow> run" where
  "get_table_schema_try d table_name schema_name =
     (case fetch_columns d schema_name table_name of
        Inl e \<Rightarrow> (Inl e, [FetchColumns schema_name table_name])
      | Inr columns \<Rightarrow>
          if columns = [] then
            (Inr (error_response (not_found_message table_name schema_name)),
             [FetchColumns schema_name table_name])
          else
            (case fetch_pks d (schema_name @ ''.'' @ table_name) of
               Inl e \<Rightarrow>
                 (Inl e, [FetchColumns schema_name table_name,
                          FetchPks (schema_name @ ''.'' @ table_name)])
             | Inr primary_keys \<Rightarrow>
                 (case fetch_fks d schema_name table_name of
                    Inl e \<Rightarrow>
                      (Inl e, [FetchColumns schema_name table_name,
                               FetchPks (schema_name @ ''.'' @ table_name),
                               FetchFks schema_name table_name])
                  | Inr fks \<Rightarrow>
                      (Inr (JObj [(''schema'', JStr schema_name),
                                  (''table'', JStr table_name),
                                  (''columns'', JList (map (\<lambda>col. JObj (col_dict primary_keys col)) columns)),
                                  (''primary_keys'', JList (map JStr primary_keys)),
                                  (''foreign_keys'', JList (map foreign_key fks))]),
                       [FetchColumns schema_name table_name,
                        FetchPks (schema_name @ ''.'' @ table_name),
                        FetchFks schema_name table_name]))))"

definition get_table_schema :: "driver \<Rightarrow> string \<Rightarrow> string \<Rightarrow> run" where
  \<comment> \<open>\<^verbatim>\<open>except Exception as e: return {"error": str(e), ...}\<close>, \<^verbatim>\<open>finally: conn.close()\<close>\<close>
  "get_table_schema d table_name schema_name =
     (case get_db_connection d of
        Inl e \<Rightarrow> (Inl e, [Connect])
      | Inr conn \<Rightarrow>
          (case get_table_schema_try d table_name schema_name of
             (Inl e, tr) \<Rightarrow> (Inr (error_response (str e)), Connect # tr @ [Close])
           | (Inr p, tr) \<Rightarrow> (Inr p, Connect # tr @ [Close])))"

section \<open>execute_query and execute_safe_query\<close>

definition star_args :: "pyval list option \<Rightarrow> pyval list" where
  \<comment> \<open>\<^verbatim>\<open>f(query, *params) if params else f(query)\<close>: the positional arguments bound.\<close>
  "star_args params = (case params of None \<Rightarrow> [] | Some [] \<Rightarrow> [] | Some (p # ps) \<Rightarrow> p # ps)"

definition affected_rows :: "string option \<Rightarrow> exn + string" where
  \<comment> \<open>\<^verbatim>\<open>status.split()[-1] if status else "0"\<close>\<close>
  "affected_rows status =
     (case status of
        None \<Rightarrow> Inr ''0''
      | Some s \<Rightarrow> if s = [] then Inr ''0'' else subscript_last (pysplit s))"

fun dict_set :: "('k \<times> 'v) list \<Rightarrow> 'k \<Rightarrow> 'v \<Rightarrow> ('k \<times> 'v) list" where
  \<comment> \<open>\<^verbatim>\<open>d[k] = v\<close> on a dict in insertion order\<close>
  "dict_set [] k v = [(k, v)]"
| "dict_set ((k', v') # d) k v =
     (if k' = k then (k', v) # d else (k', v') # dict_set d k v)"

definition py_dict :: "('k \<times> 'v) list \<Rightarrow> ('k \<times> 'v) list" where
  \<comment> \<open>\<^verbatim>\<open>dict(row)\<close>: one entry per column name, at the place of the first column of that
      name, with the value of the last\<close>
  "py_dict r = foldl (\<lambda>d (k, v). dict_set d k v) [] r"

definition execute_query_try :: "driver \<Rightarrow> string \<Rightarrow> pyval list option \<Rightarrow> run" where
  "execute_query_try d query params =
     (let query_upper = pyupper (pystrip query) in
      if startswith query_upper ''SELECT'' then
        (case fetch d query (star_args params) of
           Inl e \<Rightarrow> (Inl e, [Fetch query (star_args params)])
         | Inr rows \<Rightarrow>
             (Inr (JObj [(''type'', JStr ''SELECT''),
                         (''row_count'', JInt (int (length rows))),
                         (''results'',
                          JList (map (\<lambda>r. JObj (map (\<lambda>(k, v). (k, to_json v)) (py_dict r))) rows))]),
              [Fetch query (star_args params)]))
      else
        (case execute d query (star_args params) of
           Inl e \<Rightarrow> (Inl e, [Execute query (star_args params)])
         | Inr status \<Rightarrow>
             (case affected_rows status of
                Inl e \<Rightarrow> (Inl e, [Execute query (star_args params)])
              | Inr affected \<Rightarrow>
                  (case subscript_first (pysplit query_upper) of
                     Inl e \<Rightarrow> (Inl e, [Execute query (star_args params)])
                   | Inr verb \<Rightarrow>
                       (Inr (JObj [(''type'', JStr verb),
                                   (''affected_rows'', JStr affected),
                                   (''status'', JStr ''success'')]),
                        [Execute query (star_args params)])))))"

definition execute_query :: "driver \<Rightarrow> string \<Rightarrow> pyval list option \<Rightarrow> run" where
  "execute_query d query params =
     (case get_db_connection d of
        Inl e \<Rightarrow> (Inl e, [Connect])
      | Inr conn \<Rightarrow>
          (case execute_query_try d query params of
             (Inl e, tr) \<Rightarrow> (Inr (error_response (str e)), Connect # tr @ [Close])
           | (Inr p, tr) \<Rightarrow> (Inr p, Connect # tr @ [Close])))"

definition execute_safe_query :: "driver \<Rightarrow> string \<Rightarrow> run" where
  "execute_safe_query d query =
     (if \<not> startswith (pyupper (pystrip query)) ''SELECT'' then
        (Inr (JObj [(''error'', JStr ''Only SELECT queries are allowed with this tool''),
                    (''status'', JStr ''failed'')]), [])
      else execute_query d query None)"

section \<open>Startup configuration\<close>

definition is_digit :: "char \<Rightarrow> bool" where
  "is_digit c = (48 \<le> (of_char c :: nat) \<and> (of_char c :: nat) \<le> 57)"

fun int_digits :: "string \<Rightarrow> bool" where
  \<comment> \<open>the digits of a decimal literal: single underscores may separate digits\<close>
  "int_digits [] = False"
| "int_digits [c] = is_digit c"
| "int_digits (c # u # cs) =
     (is_digit c \<and> (if u = CHR ''_'' then int_digits cs else int_digits (u # cs)))"

definition digits_value :: "string \<Rightarrow> int" where
  "digits_value s = foldl (\<lambda>n c. 10 * n + (int (of_char c) - 48)) 0 (filter is_digit s)"

definition int_isspace :: "char \<Rightarrow> bool" where
  \<comment> \<open>the whitespace \<^verbatim>\<open>int()\<close> allows around a literal: of the ASCII characters only TAB,
      LF, VT, FF, CR and SPACE (not FS, GS, RS, US), and NEL and NBSP\<close>
  "int_isspace c = (of_char c \<in> {9, 10, 11, 12, 13, 32, 133, 160 :: nat})"

fun show_nat :: "nat \<Rightarrow> string" where
  \<comment> \<open>\<^verbatim>\<open>str(n)\<close>\<close>
  "show_nat n =
     (if n < 10 then [char_of (48 + n)] else show_nat (n div 10) @ [char_of (48 + n mod 10)])"

declare show_nat.simps [simp del]

definition py_int :: "string option \<Rightarrow> exn + int" where
  \<comment> \<open>\<^verbatim>\<open>int(x)\<close> for \<open>x\<close> a \<^verbatim>\<open>str\<close> or \<^verbatim>\<open>None\<close>, with the default limit of 4300 digits.
      The message of the \<open>ValueError\<close> of a text that is no literal quotes the text as
      \<^verbatim>\<open>repr\<close> does when it needs no escape.\<close>
  "py_int x =
     (case x of
        None \<Rightarrow>
          Inl (TypeError (''int() argument must be a string, a bytes-like object or a real number, not ''
                            @ [CHR 0x27] @ ''NoneType'' @ [CHR 0x27]))
      | Some s \<Rightarrow>
          (let t = rev (dropWhile int_isspace (rev (dropWhile int_isspace s)));
               body = (case t of [] \<Rightarrow> [] | c # cs \<Rightarrow> if c = CHR ''-'' \<or> c = CHR ''+'' then cs else t);
               sign = (case t of [] \<Rightarrow> 1 | c # cs \<Rightarrow> if c = CHR ''-'' then - 1 else 1)
           in if \<not> int_digits body then
                Inl (ValueError (''invalid literal for int() with base 10: ''
                                   @ [CHR 0x27] @ s @ [CHR 0x27]))
              else if 4300 < length (filter is_digit body) then
                Inl (ValueError (''Exceeds the limit (4300 digits) for integer string conversion: value has ''
                                   @ show_nat (length (filter is_digit body))
                                   @ '' digits; use sys.set_int_max_str_digits() to increase the limit''))
              else Inr (sign * digits_value body)))"

definition os_getenv :: "(string \<rightharpoonup> string) \<Rightarrow> string \<Rightarrow> string option \<Rightarrow> string option" where
  \<comment> \<open>\<^verbatim>\<open>os.getenv(key, default)\<close>\<close>
  "os_getenv env key dflt = (case env key of Some v \<Rightarrow> Some v | None \<Rightarrow> dflt)"

record db_config =
  host :: "string option"
  port :: int
  database :: "string option"
  user :: "string option"
  password :: "string option"

definition DB_CONFIG :: "(string \<rightharpoonup> string) \<Rightarrow> exn + db_config" where
  \<comment> \<open>The module-level dict, built when the module is loaded: \<open>Inl e\<close> when building
      it raises \<open>e\<close>, so that the process does not start.\<close>
  "DB_CONFIG env =
     (case py_int (os_getenv env ''DB_PORT'' None) of
        Inl e \<Rightarrow> Inl e
      | Inr p \<Rightarrow>
          Inr \<lparr>host = os_getenv env ''DB_HOST'' (Some ''localhost''),
               port = p,
               database = os_getenv env ''DB_DATABASE'' None,
               user = os_getenv env ''DB_USER'' None,
               password = os_getenv env ''DB_PASSWORD'' None\<rparr>)"

section \<open>Concrete drivers\<close>

text \<open>Drivers for running the handlers on concrete calls, after the mocks of the tests.\<close>

definition id_column :: column_row where
  "id_column = \<lparr>column_name = ''id'', data_type = ''integer'',
                 character_maximum_length = None, is_nullable = ''NO'',
                 column_default = Some ''nextval(...)''\<rparr>"

definition name_column :: column_row where
  "name_column = \<lparr>column_name = ''name'', data_type = ''character varying'',
                   character_maximum_length = Some 255, is_nullable = ''YES'',
                   column_default = None\<rparr>"

definition users_driver :: driver where
  \<comment> \<open>one schema \<open>public\<close> with the tables \<open>orders\<close> and \<open>users\<close>\<close>
  "users_driver =
     \<lparr>connect = None,
      fetch_tables = (\<lambda>s. Inr (if s = ''public'' then [''orders'', ''users''] else [])),
      fetch_columns = (\<lambda>s t. Inr (if s = ''public'' \<and> t = ''users''
                                     then [id_column, name_column] else [])),
      fetch_pks = (\<lambda>r. Inr [''id'']),
      fetch_fks = (\<lambda>s t. Inr []),
      fetch = (\<lambda>q args. Inr [[(''id'', PInt 1), (''name'', PStr ''Alice'')]]),
      execute = (\<lambda>q args. Inr (Some ''INSERT 0 1''))\<rparr>"


definition failing_driver :: driver where
  \<comment> \<open>a connection on which every statement raises\<close>
  "failing_driver =
     \<lparr>connect = None,
      fetch_tables = (\<lambda>s. Inl (PostgresError ''Syntax error'')),
      fetch_columns = (\<lambda>s t. Inl (PostgresError ''Syntax error'')),
      fetch_pks = (\<lambda>r. Inl (PostgresError ''Syntax error'')),
      fetch_fks = (\<lambda>s t. Inl (PostgresError ''Syntax error'')),
      fetch = (\<lambda>q args. Inl (PostgresError ''Syntax error'')),
      execute = (\<lambda>q args. Inl (PostgresError ''Syntax error''))\<rparr>"

definition broken_pk_driver :: driver where
  \<comment> \<open>the columns are fetched, then the primary-key query raises\<close>
  "broken_pk_driver =
     users_driver\<lparr>fetch_pks := (\<lambda>r. Inl (PostgresError ''permission denied for table pg_index''))\<rparr>"

definition unreachable_driver :: driver where
  \<comment> \<open>\<^verbatim>\<open>asyncpg.connect\<close> raises\<close>
  "unreachable_driver = failing_driver\<lparr>connect := Some (PostgresError ''Connection failed'')\<rparr>"

section \<open>Traces\<close>

definition opened_and_closed_once :: "event list \<Rightarrow> bool" where
  \<comment> \<open>the run opens one connection first and closes it once, as its last driver call\<close>
  "opened_and_closed_once tr =
     (tr \<noteq> [] \<and> hd tr = Connect \<and> last tr = Close \<and>
      count_list tr Connect = 1 \<and> count_list tr Close = 1)"

section \<open>Tokens of a string\<close>

text \<open>
  \<^const>\<open>pysplit\<close> yields no token exactly on a blank string; its first token is the
  first run of non-whitespace and its last token the last such run.
\<close>

lemma isspace_upper_char: "isspace (upper_char c) = isspace c"
proof -
  have "of_char (char_of (of_char c - 32 :: nat)) = ((of_char c - 32) mod 256 :: nat)"
    by simp
  then show ?thesis
    unfolding isspace_def upper_char_def Let_def
    by (cases "(97 \<le> (of_char c :: nat) \<and> (of_char c :: nat) \<le> 122) \<or>
               (224 \<le> (of_char c :: nat) \<and> (of_char c :: nat) \<le> 254 \<and> (of_char c :: nat) \<noteq> 247)")
      auto
qed

lemma pyupper_pystrip: "pyupper (pystrip s) = pystrip (pyupper s)"
  unfolding pyupper_def pystrip_def
  by (simp add: rev_map dropWhile_map comp_def isspace_upper_char)

lemma pysplit_Nil_iff: "pysplit s = [] \<longleftrightarrow> (\<forall>c \<in> set s. isspace c)"
proof (cases "dropWhile isspace s")
  case Nil
  have "pysplit s = []"
    by (subst pysplit.simps) (simp only: Nil list.case)
  moreover have "\<forall>c \<in> set s. isspace c"
    using Nil by simp
  ultimately show ?thesis by simp
next
  case (Cons c cs)
  then have "dropWhile isspace s \<noteq> []" by simp
  then have "\<not> (\<forall>c \<in> set s. isspace c)"
    by simp
  moreover have "pysplit s \<noteq> []"
    by (subst pysplit.simps) (simp only: Cons list.case list.distinct not_False_eq_True)
  ultimately show ?thesis by simp
qed

lemma pysplit_Cons:
  assumes "dropWhile isspace s = c # cs"
  shows "pysplit s =
     takeWhile (\<lambda>x. \<not> isspace x) (c # cs) # pysplit (dropWhile (\<lambda>x. \<not> isspace x) (c # cs))"
  by (subst pysplit.simps) (simp only: assms list.case)

lemma hd_pysplit:
  "pysplit s \<noteq> [] \<Longrightarrow> hd (pysplit s) = takeWhile (\<lambda>x. \<not> isspace x) (dropWhile isspace s)"
  by (cases "dropWhile isspace s") (simp_all add: pysplit_Nil_iff pysplit_Cons)

lemma last_dropWhile_nonempty:
  "dropWhile P xs \<noteq> [] \<Longrightarrow> last (dropWhile P xs) = last xs"
  by (metis last_appendR takeWhile_dropWhile_id)

lemma last_pysplit:
  "pysplit s \<noteq> [] \<Longrightarrow>
     last (pysplit s) = rev (takeWhile (\<lambda>x. \<not> isspace x) (dropWhile isspace (rev s)))"
proof (induction s rule: pysplit.induct)
  case (1 s)
  let ?ns = "\<lambda>x. \<not> isspace x"
  from "1.prems" obtain c cs where t: "dropWhile isspace s = c # cs"
    by (cases "dropWhile isspace s") (auto simp: pysplit_Nil_iff)
  define ws where "ws = takeWhile isspace s"
  define tok where "tok = takeWhile ?ns (c # cs)"
  define rest where "rest = dropWhile ?ns (c # cs)"
  have c: "\<not> isspace c"
    using t by (metis hd_dropWhile list.distinct(1) list.sel(1))
  have s: "s = ws @ tok @ rest"
    unfolding ws_def tok_def rest_def using t
    by (metis takeWhile_dropWhile_id)
  have ws: "\<forall>x \<in> set ws. isspace x"
    unfolding ws_def by (auto dest: set_takeWhileD)
  have tok: "\<forall>x \<in> set tok. \<not> isspace x" "tok \<noteq> []"
    unfolding tok_def using c by (auto dest: set_takeWhileD)
  have split: "pysplit s = tok # pysplit rest"
    unfolding tok_def rest_def using t by (rule pysplit_Cons)
  have revs: "rev s = rev rest @ rev tok @ rev ws"
    by (simp add: s)
  have tw: "takeWhile ?ns (rev tok @ rev ws) = rev tok"
  proof -
    have e: "takeWhile ?ns (rev ws) = []"
      using ws by (cases "rev ws") auto
    have "takeWhile ?ns (rev tok @ rev ws) = rev tok @ takeWhile ?ns (rev ws)"
      by (rule takeWhile_append2) (use tok in simp)
    then show ?thesis
      by (simp only: e append_Nil2)
  qed
  show ?case
  proof (cases "pysplit rest = []")
    case True
    then have r: "\<forall>x \<in> set (rev rest). isspace x"
      by (simp add: pysplit_Nil_iff)
    have "dropWhile isspace (rev s) = dropWhile isspace (rev tok @ rev ws)"
      unfolding revs by (rule dropWhile_append2) (use r in simp)
    also have "\<dots> = rev tok @ rev ws"
    proof -
      have "\<not> isspace (hd (rev tok @ rev ws))"
        using tok by (cases "rev tok") auto
      then show ?thesis
        by (simp add: dropWhile_eq_self_iff)
    qed
    finally show ?thesis
      using True by (simp add: split tw)
  next
    case False
    let ?A = "dropWhile isspace (rev rest)"
    from False obtain x where x: "x \<in> set rest" "\<not> isspace x"
      by (auto simp: pysplit_Nil_iff)
    have ih: "last (pysplit rest) = rev (takeWhile ?ns ?A)"
      using "1.IH" [OF t] False unfolding rest_def by simp
    have d: "dropWhile isspace (rev s) = ?A @ rev tok @ rev ws"
      unfolding revs using x by simp
    have rest_ne: "rest \<noteq> []"
      using x by auto
    have A_ne: "?A \<noteq> []"
      using x by auto
    have "isspace (hd rest)"
      using rest_ne unfolding rest_def by (metis hd_dropWhile)
    moreover have "last ?A = last (rev rest)"
      using A_ne by (rule last_dropWhile_nonempty)
    moreover have "last (rev rest) = hd rest"
      using rest_ne by (simp add: last_rev)
    ultimately have "isspace (last ?A)"
      by simp
    moreover have "last ?A \<in> set ?A"
      using A_ne by (rule last_in_set)
    ultimately have "\<exists>y \<in> set ?A. isspace y"
      by blast
    then have "takeWhile ?ns (?A @ rev tok @ rev ws) = takeWhile ?ns ?A"
      by (metis takeWhile_append1)
    then show ?thesis
      using False by (simp add: split d ih)
  qed
qed

lemma blank_query_upper:
  "pysplit (pyupper (pystrip query)) = [] \<longleftrightarrow> (\<forall>c \<in> set query. isspace c)"
proof
  assume "pysplit (pyupper (pystrip query)) = []"
  then have a: "\<forall>c \<in> set (pystrip query). isspace c"
    by (simp add: pysplit_Nil_iff pyupper_def isspace_upper_char)
  show "\<forall>c \<in> set query. isspace c"
  proof (rule ccontr)
    assume "\<not> (\<forall>c \<in> set query. isspace c)"
    then have t: "dropWhile isspace query \<noteq> []"
      by simp
    then have "\<not> isspace (hd (dropWhile isspace query))"
      by (rule hd_dropWhile)
    then have n: "\<not> isspace (last (rev (dropWhile isspace query)))"
      using t by (simp add: last_rev)
    then have "\<exists>x \<in> set (rev (dropWhile isspace query)). \<not> isspace x"
      using t by (metis last_in_set rev_is_Nil_conv)
    then have ne: "dropWhile isspace (rev (dropWhile isspace query)) \<noteq> []"
      by simp
    then have "last (dropWhile isspace (rev (dropWhile isspace query))) =
               last (rev (dropWhile isspace query))"
      by (rule last_dropWhile_nonempty)
    with n ne have "\<exists>x \<in> set (dropWhile isspace (rev (dropWhile isspace query))). \<not> isspace x"
      by (metis last_in_set)
    moreover have "set (pystrip query) = set (dropWhile isspace (rev (dropWhile isspace query)))"
      unfolding pystrip_def by (rule set_rev)
    ultimately show False
      using a by blast
  qed
next
  assume "\<forall>c \<in> set query. isspace c"
  then have d: "dropWhile isspace query = []"
    by simp
  have "pystrip query = []"
    unfolding pystrip_def by (simp only: d rev.simps dropWhile.simps)
  then show "pysplit (pyupper (pystrip query)) = []"
    by (simp add: pysplit_Nil_iff pyupper_def)
qed

section \<open>Acquiring the connection\<close>

lemma get_db_connection_ok: "connect d = None \<Longrightarrow> get_db_connection d = Inr ()"
  by (simp add: get_db_connection_def)

lemma get_db_connection_raises: "connect d = Some e \<Longrightarrow> get_db_connection d = Inl e"
  by (simp add: get_db_connection_def)

section \<open>Case and surrounding whitespace\<close>

text \<open>
  The test \<^verbatim>\<open>query.strip().upper().startswith(...)\<close> of both query handlers does not
  see whitespace around the query, nor the case of its letters.
\<close>

lemma pystrip_surrounding_whitespace:
  assumes "\<forall>c \<in> set ws. isspace c" and "\<forall>c \<in> set ws'. isspace c"
  shows "pystrip (ws @ query @ ws') = pystrip query"
proof -
  have l: "dropWhile isspace (ws @ xs) = dropWhile isspace xs" for xs
    by (rule dropWhile_append2) (use assms(1) in simp)
  have r: "dropWhile isspace (rev ws' @ xs) = dropWhile isspace xs" for xs
    by (rule dropWhile_append2) (use assms(2) in simp)
  show ?thesis
  proof (cases "\<forall>c \<in> set query. isspace c")
    case True
    then have "dropWhile isspace (query @ ws') = []" "dropWhile isspace query = []"
      using assms(2) by auto
    then show ?thesis
      unfolding pystrip_def l by (simp only:)
  next
    case False
    then obtain x where "x \<in> set query" "\<not> isspace x"
      by blast
    then have "dropWhile isspace (query @ ws') = dropWhile isspace query @ ws'"
      by (rule dropWhile_append1)
    then have "rev (dropWhile isspace (ws @ query @ ws')) = rev ws' @ rev (dropWhile isspace query)"
      by (simp only: l rev_append)
    then show ?thesis
      unfolding pystrip_def by (simp only: r)
  qed
qed

lemma classification_ignores_case:
  "pyupper query = pyupper query' \<Longrightarrow>
     startswith (pyupper (pystrip query)) p = startswith (pyupper (pystrip query')) p"
  by (simp add: pyupper_pystrip)

section \<open>execute_safe_query: the gate\<close>

text \<open>
  C1. A query whose trimmed, uppercased text does not start with \<open>SELECT\<close> is answered
  by \<open>execute_safe_query\<close> with the payload
  \<open>{error: "Only SELECT queries are allowed with this tool", status: "failed"}\<close>, and
  no driver call is made: the trace is empty, so no connection is opened.
\<close>

theorem safe_query_rejects_non_select:
  "\<not> startswith (pyupper (pystrip query)) ''SELECT'' \<Longrightarrow>
     execute_safe_query d query =
       (Inr (JObj [(''error'', JStr ''Only SELECT queries are allowed with this tool''),
                   (''status'', JStr ''failed'')]), [])"
  by (simp add: execute_safe_query_def)

theorem safe_query_rejects_non_select_witness:
  "\<not> startswith (pyupper (pystrip ''DROP TABLE users'')) ''SELECT'' \<and>
   execute_safe_query unreachable_driver ''DROP TABLE users'' =
       (Inr (JObj [(''error'', JStr ''Only SELECT queries are allowed with this tool''),
                   (''status'', JStr ''failed'')]), [])"
proof -
  have h: "\<not> startswith (pyupper (pystrip ''DROP TABLE users'')) ''SELECT''"
    by code_simp
  from h safe_query_rejects_non_select [OF h] show ?thesis
    by (rule conjI)
qed

text \<open>
  C8. A query whose trimmed, uppercased text starts with \<open>SELECT\<close> is handed unchanged
  to \<open>execute_query\<close> with no parameters: \<open>execute_safe_query\<close> has the same outcome
  and makes the same driver calls.
\<close>

theorem safe_query_delegates:
  "startswith (pyupper (pystrip query)) ''SELECT'' \<Longrightarrow>
     execute_safe_query d query = execute_query d query None"
  by (simp add: execute_safe_query_def)

theorem safe_query_delegates_witness:
  "startswith (pyupper (pystrip ''   SELECT * FROM users'')) ''SELECT'' \<and>
   execute_safe_query users_driver ''   SELECT * FROM users'' =
     execute_query users_driver ''   SELECT * FROM users'' None"
proof -
  have h: "startswith (pyupper (pystrip ''   SELECT * FROM users'')) ''SELECT''"
    by code_simp
  from h safe_query_delegates [OF h] show ?thesis
    by (rule conjI)
qed

section \<open>execute_query: classification\<close>

text \<open>
  C3. On an acquired connection \<open>execute_query\<close> treats the query as a SELECT, running
  it with \<^verbatim>\<open>conn.fetch\<close>, exactly when its trimmed, uppercased text starts with
  \<open>SELECT\<close>; every other query is a mutation, run with \<^verbatim>\<open>conn.execute\<close>. Case and
  surrounding whitespace do not matter: \<open>select 1\<close>, \<open>  SELECT 1\<close> and \<open>SeLeCt 1\<close> are all
  SELECTs (the witness runs them).
\<close>

theorem execute_query_classification:
  assumes "connect d = None"
  shows "snd (execute_query d query params) =
     [Connect,
      (if startswith (pyupper (pystrip query)) ''SELECT''
       then Fetch query (star_args params) else Execute query (star_args params)),
      Close]"
  using assms
  by (simp add: execute_query_def execute_query_try_def get_db_connection_ok Let_def
           split: sum.splits prod.splits)

theorem execute_query_classification_witness:
  "snd (execute_query users_driver ''select 1'' None) = [Connect, Fetch ''select 1'' [], Close] \<and>
   snd (execute_query users_driver ''  SELECT 1'' None) = [Connect, Fetch ''  SELECT 1'' [], Close] \<and>
   snd (execute_query users_driver ''SeLeCt 1'' None) = [Connect, Fetch ''SeLeCt 1'' [], Close] \<and>
   snd (execute_query users_driver ''DELETE FROM users'' None) = [Connect, Execute ''DELETE FROM users'' [], Close]"
proof -
  have c: "connect users_driver = None"
    by (simp add: users_driver_def)
  have s: "startswith (pyupper (pystrip ''select 1'')) ''SELECT''"
    "startswith (pyupper (pystrip ''  SELECT 1'')) ''SELECT''"
    "startswith (pyupper (pystrip ''SeLeCt 1'')) ''SELECT''"
    "\<not> startswith (pyupper (pystrip ''DELETE FROM users'')) ''SELECT''"
    by code_simp+
  have a: "star_args None = []"
    by (simp add: star_args_def)
  show ?thesis
    using execute_query_classification [OF c, of "''select 1''" None]
      execute_query_classification [OF c, of "''  SELECT 1''" None]
      execute_query_classification [OF c, of "''SeLeCt 1''" None]
      execute_query_classification [OF c, of "''DELETE FROM users''" None]
    by (simp only: s a if_True if_False simp_thms)
qed

section \<open>get_table_schema: the absent table\<close>

text \<open>
  C5. When the column fetch for \<open>(table_name, schema_name)\<close> returns no rows on an
  acquired connection, \<open>get_table_schema\<close> returns (it does not raise) the payload
  whose \<open>error\<close> is exactly \<open>Table '<table_name>' not found in schema '<schema_name>'\<close>
  and whose \<open>status\<close> is \<open>failed\<close>.
\<close>

theorem table_not_found:
  assumes "connect d = None" and "fetch_columns d schema_name table_name = Inr []"
  shows "get_table_schema d table_name schema_name =
     (Inr (JObj [(''error'', JStr (''Table '' @ [CHR 0x27] @ table_name @ [CHR 0x27]
                                   @ '' not found in schema '' @ [CHR 0x27] @ schema_name @ [CHR 0x27])),
                 (''status'', JStr ''failed'')]),
      [Connect, FetchColumns schema_name table_name, Close])"
  using assms
  by (simp add: get_table_schema_def get_table_schema_try_def get_db_connection_ok
        error_response_def not_found_message_def)

theorem table_not_found_witness:
  "get_table_schema users_driver ''nonexistent'' ''public'' =
     (Inr (JObj [(''error'', JStr (''Table '' @ [CHR 0x27] @ ''nonexistent'' @ [CHR 0x27]
                                   @ '' not found in schema '' @ [CHR 0x27] @ ''public'' @ [CHR 0x27])),
                 (''status'', JStr ''failed'')]),
      [Connect, FetchColumns ''public'' ''nonexistent'', Close])"
proof -
  have c: "connect users_driver = None"
    by (simp add: users_driver_def)
  have f: "fetch_columns users_driver ''public'' ''nonexistent'' = Inr []"
    by (simp add: users_driver_def)
  show ?thesis
    by (rule table_not_found [OF c f])
qed

section \<open>Closing the connection\<close>

text \<open>
  C7. Every run of \<open>list_tables\<close>, \<open>get_table_schema\<close> or \<open>execute_query\<close> that acquires
  a connection closes it exactly once, as its last driver call, whatever the exit path:
  success, the not-found return, or an exception.
\<close>

theorem connection_closed_once:
  assumes "connect d = None"
  shows "opened_and_closed_once (snd (list_tables d schema_name)) \<and>
         opened_and_closed_once (snd (get_table_schema d table_name schema_name)) \<and>
         opened_and_closed_once (snd (execute_query d query params))"
proof (intro conjI)
  show "opened_and_closed_once (snd (list_tables d schema_name))"
    using assms
    by (simp add: list_tables_def list_tables_try_def get_db_connection_ok
          opened_and_closed_once_def split: sum.splits)
  show "opened_and_closed_once (snd (get_table_schema d table_name schema_name))"
    using assms
    by (simp add: get_table_schema_def get_table_schema_try_def get_db_connection_ok
          opened_and_closed_once_def split: sum.splits)
  show "opened_and_closed_once (snd (execute_query d query params))"
    using assms
    by (simp add: execute_query_def execute_query_try_def get_db_connection_ok Let_def
          opened_and_closed_once_def split: sum.splits)
qed

theorem connection_closed_once_witness:
  "opened_and_closed_once (snd (get_table_schema users_driver ''users'' ''public'')) \<and>
   opened_and_closed_once (snd (get_table_schema users_driver ''nonexistent'' ''public'')) \<and>
   opened_and_closed_once (snd (execute_query failing_driver ''SELECT * FROM invalid_syntax'' None)) \<and>
   opened_and_closed_once (snd (list_tables failing_driver ''public''))"
proof -
  have u: "connect users_driver = None"
    by (simp add: users_driver_def)
  have f: "connect failing_driver = None"
    by (simp add: failing_driver_def)
  show ?thesis
    using connection_closed_once [OF u, of "''public''" "''users''"]
      connection_closed_once [OF u, of "''public''" "''nonexistent''"]
      connection_closed_once [OF f, of "''public''" _ "''SELECT * FROM invalid_syntax''" None]
    by blast
qed

section \<open>execute_query: the mutation payload\<close>

text \<open>
  A statement for which \<^verbatim>\<open>conn.execute\<close> returns a status has a token, since the
  driver raises on a blank one.
\<close>

lemma answered_statement_has_token:
  assumes "(\<forall>c \<in> set query. isspace c) \<longrightarrow> (\<exists>e. execute d query args = Inl e)"
    and "execute d query args = Inr status"
  shows "pysplit (pyupper (pystrip query)) \<noteq> []"
  using assms by (auto simp: blank_query_upper)





section \<open>Startup configuration: what is required\<close>

text \<open>
  C9 (as stated) fails: with \<open>DB_PORT\<close> set and \<open>DB_DATABASE\<close>, \<open>DB_USER\<close> and
  \<open>DB_PASSWORD\<close> all missing, building \<open>DB_CONFIG\<close> raises nothing; the three settings
  are \<open>None\<close>.
\<close>

theorem startup_config_missing_counterexample:
  "[''DB_PORT'' \<mapsto> ''5432''] ''DB_DATABASE'' = None \<and>
   [''DB_PORT'' \<mapsto> ''5432''] ''DB_USER'' = None \<and>
   [''DB_PORT'' \<mapsto> ''5432''] ''DB_PASSWORD'' = None \<and>
   DB_CONFIG [''DB_PORT'' \<mapsto> ''5432''] =
     Inr \<lparr>host = Some ''localhost'', port = 5432, database = None, user = None, password = None\<rparr>"
  by code_simp

text \<open>
  C9 (amended). A missing \<open>DB_PORT\<close> is a startup-time error: building \<open>DB_CONFIG\<close>,
  when the module is loaded and before any handler runs, raises the \<open>TypeError\<close> of
  \<^verbatim>\<open>int(None)\<close>. Whenever \<open>DB_PORT\<close> reads as an integer the configuration is built,
  with a missing \<open>DB_DATABASE\<close>, \<open>DB_USER\<close> or \<open>DB_PASSWORD\<close> stored as \<open>None\<close> and a
  missing \<open>DB_HOST\<close> as \<open>localhost\<close>.
\<close>

theorem startup_config:
  "(env ''DB_PORT'' = None \<longrightarrow>
      DB_CONFIG env =
        Inl (TypeError (''int() argument must be a string, a bytes-like object or a real number, not ''
                          @ [CHR 0x27] @ ''NoneType'' @ [CHR 0x27]))) \<and>
   (\<forall>p. py_int (env ''DB_PORT'') = Inr p \<longrightarrow>
      DB_CONFIG env =
        Inr \<lparr>host = (case env ''DB_HOST'' of None \<Rightarrow> Some ''localhost'' | Some h \<Rightarrow> Some h),
             port = p,
             database = env ''DB_DATABASE'',
             user = env ''DB_USER'',
             password = env ''DB_PASSWORD''\<rparr>)"
  by (auto simp: DB_CONFIG_def os_getenv_def py_int_def split: option.splits)

theorem startup_config_witness:
  "DB_CONFIG Map.empty =
     Inl (TypeError (''int() argument must be a string, a bytes-like object or a real number, not ''
                       @ [CHR 0x27] @ ''NoneType'' @ [CHR 0x27])) \<and>
   DB_CONFIG [''DB_PORT'' \<mapsto> ''5432'', ''DB_USER'' \<mapsto> ''test_user''] =
     Inr \<lparr>host = Some ''localhost'', port = 5432, database = None,
          user = Some ''test_user'', password = None\<rparr>"
proof -
  have p: "py_int ([''DB_PORT'' \<mapsto> ''5432'', ''DB_USER'' \<mapsto> ''test_user''] ''DB_PORT'') = Inr 5432"
    by code_simp
  have m: "(Map.empty :: string \<rightharpoonup> string) ''DB_PORT'' = None"
    by simp
  show ?thesis
    using startup_config [of Map.empty] startup_config [of "[''DB_PORT'' \<mapsto> ''5432'', ''DB_USER'' \<mapsto> ''test_user'']"] p m
    by simp
qed

section \<open>get_table_schema: the column descriptors\<close>

lemma col_dict_fields:
  "map_of (col_dict primary_keys col) ''name'' = Some (JStr (column_name col))"
  "map_of (col_dict primary_keys col) ''is_primary_key'' =
     Some (JBool (column_name col \<in> set primary_keys))"
  "map_of (col_dict primary_keys col) ''max_length'' =
     (case character_maximum_length col of
        None \<Rightarrow> None
      | Some n \<Rightarrow> if n = 0 then None else Some (JInt n))"
  by (simp_all add: col_dict_def truthy_int_def split: option.splits)

text \<open>
  C6. In every successful \<open>get_table_schema\<close> result on a catalog of PostgreSQL (whose
  lengths are null or at least 1, so never 0) the descriptors follow the columns in
  order; a descriptor has \<open>is_primary_key\<close> true if and only if its name is among the
  primary keys, and it carries \<open>max_length\<close> if and only if the catalog reports a
  non-null \<open>character_maximum_length\<close>, the field then being that length.
\<close>

theorem column_descriptors:
  assumes "connect d = None"
    and "fetch_columns d schema_name table_name = Inr columns"
    and "columns \<noteq> []"
    and "\<forall>col \<in> set columns. character_maximum_length col \<noteq> Some 0"
    and "fetch_pks d (schema_name @ ''.'' @ table_name) = Inr primary_keys"
    and "fetch_fks d schema_name table_name = Inr fks"
  shows "\<exists>descs.
           fst (get_table_schema d table_name schema_name) =
             Inr (JObj [(''schema'', JStr schema_name),
                        (''table'', JStr table_name),
                        (''columns'', JList (map JObj descs)),
                        (''primary_keys'', JList (map JStr primary_keys)),
                        (''foreign_keys'', JList (map foreign_key fks))]) \<and>
           length descs = length columns \<and>
           (\<forall>i < length columns.
              map_of (descs ! i) ''name'' = Some (JStr (column_name (columns ! i))) \<and>
              map_of (descs ! i) ''is_primary_key'' =
                Some (JBool (column_name (columns ! i) \<in> set primary_keys)) \<and>
              (map_of (descs ! i) ''max_length'' \<noteq> None \<longleftrightarrow>
                 character_maximum_length (columns ! i) \<noteq> None) \<and>
              map_of (descs ! i) ''max_length'' =
                map_option JInt (character_maximum_length (columns ! i)))"
proof (intro exI conjI allI impI)
  show "fst (get_table_schema d table_name schema_name) =
          Inr (JObj [(''schema'', JStr schema_name),
                     (''table'', JStr table_name),
                     (''columns'', JList (map JObj (map (col_dict primary_keys) columns))),
                     (''primary_keys'', JList (map JStr primary_keys)),
                     (''foreign_keys'', JList (map foreign_key fks))])"
    using assms(1,2,3,5,6)
    by (simp add: get_table_schema_def get_table_schema_try_def get_db_connection_ok comp_def)
  show "length (map (col_dict primary_keys) columns) = length columns"
    by simp
next
  fix i assume i: "i < length columns"
  then have n: "map (col_dict primary_keys) columns ! i = col_dict primary_keys (columns ! i)"
    by simp
  from i have "columns ! i \<in> set columns"
    by (rule nth_mem)
  with assms(4) have z: "character_maximum_length (columns ! i) \<noteq> Some 0"
    by blast
  show "map_of (map (col_dict primary_keys) columns ! i) ''name'' =
          Some (JStr (column_name (columns ! i)))"
    by (simp only: n col_dict_fields)
  show "map_of (map (col_dict primary_keys) columns ! i) ''is_primary_key'' =
          Some (JBool (column_name (columns ! i) \<in> set primary_keys))"
    by (simp only: n col_dict_fields)
  show m: "map_of (map (col_dict primary_keys) columns ! i) ''max_length'' =
          map_option JInt (character_maximum_length (columns ! i))"
    using z by (simp add: n col_dict_fields split: option.splits)
  show "map_of (map (col_dict primary_keys) columns ! i) ''max_length'' \<noteq> None \<longleftrightarrow>
          character_maximum_length (columns ! i) \<noteq> None"
    unfolding m by simp
qed

theorem column_descriptors_witness:
  "\<exists>descs.
     fst (get_table_schema users_driver ''users'' ''public'') =
       Inr (JObj [(''schema'', JStr ''public''),
                  (''table'', JStr ''users''),
                  (''columns'', JList (map JObj descs)),
                  (''primary_keys'', JList [JStr ''id'']),
                  (''foreign_keys'', JList [])]) \<and>
     length descs = 2 \<and>
     map_of (descs ! 0) ''name'' = Some (JStr ''id'') \<and>
     map_of (descs ! 0) ''is_primary_key'' = Some (JBool True) \<and>
     map_of (descs ! 0) ''max_length'' = None \<and>
     map_of (descs ! 1) ''name'' = Some (JStr ''name'') \<and>
     map_of (descs ! 1) ''is_primary_key'' = Some (JBool False) \<and>
     map_of (descs ! 1) ''max_length'' = Some (JInt 255)"
proof -
  have c: "connect users_driver = None"
    by (simp add: users_driver_def)
  have f: "fetch_columns users_driver ''public'' ''users'' = Inr [id_column, name_column]"
    by (simp add: users_driver_def)
  have ne: "[id_column, name_column] \<noteq> []"
    by simp
  have z: "\<forall>col \<in> set [id_column, name_column]. character_maximum_length col \<noteq> Some 0"
    by (simp add: id_column_def name_column_def)
  have p: "fetch_pks users_driver (''public'' @ ''.'' @ ''users'') = Inr [''id'']"
    by (simp add: users_driver_def)
  have k: "fetch_fks users_driver ''public'' ''users'' = Inr []"
    by (simp add: users_driver_def)
  from column_descriptors [OF c f ne z p k] obtain descs where
    r: "fst (get_table_schema users_driver ''users'' ''public'') =
          Inr (JObj [(''schema'', JStr ''public''), (''table'', JStr ''users''),
                     (''columns'', JList (map JObj descs)),
                     (''primary_keys'', JList (map JStr [''id''])),
                     (''foreign_keys'', JList (map foreign_key []))])"
    and n: "length descs = length [id_column, name_column]"
    and a: "\<forall>i < length [id_column, name_column].
              map_of (descs ! i) ''name'' = Some (JStr (column_name ([id_column, name_column] ! i))) \<and>
              map_of (descs ! i) ''is_primary_key'' =
                Some (JBool (column_name ([id_column, name_column] ! i) \<in> set [''id''])) \<and>
              (map_of (descs ! i) ''max_length'' \<noteq> None \<longleftrightarrow>
                 character_maximum_length ([id_column, name_column] ! i) \<noteq> None) \<and>
              map_of (descs ! i) ''max_length'' =
                map_option JInt (character_maximum_length ([id_column, name_column] ! i))"
    by blast
  from a have a0: "map_of (descs ! 0) ''name'' = Some (JStr ''id'')"
      "map_of (descs ! 0) ''is_primary_key'' = Some (JBool True)"
      "map_of (descs ! 0) ''max_length'' = None"
    by (simp_all add: id_column_def)
  from a have "1 < length [id_column, name_column] \<longrightarrow>
              map_of (descs ! 1) ''name'' = Some (JStr (column_name ([id_column, name_column] ! 1))) \<and>
              map_of (descs ! 1) ''is_primary_key'' =
                Some (JBool (column_name ([id_column, name_column] ! 1) \<in> set [''id''])) \<and>
              (map_of (descs ! 1) ''max_length'' \<noteq> None \<longleftrightarrow>
                 character_maximum_length ([id_column, name_column] ! 1) \<noteq> None) \<and>
              map_of (descs ! 1) ''max_length'' =
                map_option JInt (character_maximum_length ([id_column, name_column] ! 1))"
    by (rule spec)
  then have a1: "map_of (descs ! 1) ''name'' = Some (JStr ''name'')"
      "map_of (descs ! 1) ''is_primary_key'' = Some (JBool False)"
      "map_of (descs ! 1) ''max_length'' = Some (JInt 255)"
    by (simp_all add: name_column_def)
  from r n a0 a1 show ?thesis
    by (intro exI [of _ descs]) simp
qed

section \<open>Exceptions\<close>

text \<open>
  C2 (as stated) fails for the fault of reaching the database: \<open>get_db_connection\<close> is
  called before the \<^verbatim>\<open>try\<close> of every handler, so its exception reaches the caller of
  \<open>execute_query\<close>, \<open>get_table_schema\<close> and \<open>execute_safe_query\<close> too; no payload is
  returned.
\<close>

theorem connection_fault_propagates_counterexample:
  "connect unreachable_driver = Some (PostgresError ''Connection failed'') \<and>
   execute_query unreachable_driver ''SELECT 1'' None =
     (Inl (PostgresError ''Connection failed''), [Connect]) \<and>
   get_table_schema unreachable_driver ''users'' ''public'' =
     (Inl (PostgresError ''Connection failed''), [Connect]) \<and>
   execute_safe_query unreachable_driver ''SELECT 1'' =
     (Inl (PostgresError ''Connection failed''), [Connect])"
  by code_simp

text \<open>On an acquired connection the three query handlers always return a payload.\<close>

lemma get_table_schema_returns:
  "connect d = None \<Longrightarrow> \<exists>p. fst (get_table_schema d table_name schema_name) = Inr p"
  by (simp add: get_table_schema_def get_table_schema_try_def get_db_connection_ok
        split: sum.splits)

lemma execute_query_returns:
  "connect d = None \<Longrightarrow> \<exists>p. fst (execute_query d query params) = Inr p"
  by (simp add: execute_query_def execute_query_try_def get_db_connection_ok Let_def
        split: sum.splits)

lemma execute_safe_query_returns:
  "connect d = None \<Longrightarrow> \<exists>p. fst (execute_safe_query d query) = Inr p"
  by (simp add: execute_safe_query_def execute_query_returns)

text \<open>
  C2 (amended). On an acquired connection, an exception raised by a driver call in the
  \<^verbatim>\<open>try\<close> block of \<open>get_table_schema\<close> (any of its three fetches), of \<open>execute_query\<close>
  (its fetch or its execute) or of \<open>execute_safe_query\<close> is caught and returned as
  \<open>{error: str(exception), status: "failed"}\<close>, and these three handlers never let an
  exception through; an exception raised during \<open>list_tables\<close> reaches the caller. An
  exception raised while acquiring the connection reaches the caller of all four
  handlers (of \<open>execute_safe_query\<close> when the query passes the gate).
\<close>

theorem exception_policy:
  "(connect d = None \<longrightarrow>
      (\<forall>e. fetch_tables d schema_name = Inl e \<longrightarrow> fst (list_tables d schema_name) = Inl e) \<and>
      (\<forall>e. fetch_columns d schema_name table_name = Inl e \<longrightarrow>
           fst (get_table_schema d table_name schema_name) = Inr (error_response (str e))) \<and>
      (\<forall>e columns. fetch_columns d schema_name table_name = Inr columns \<and> columns \<noteq> [] \<and>
           fetch_pks d (schema_name @ ''.'' @ table_name) = Inl e \<longrightarrow>
           fst (get_table_schema d table_name schema_name) = Inr (error_response (str e))) \<and>
      (\<forall>e columns pks. fetch_columns d schema_name table_name = Inr columns \<and> columns \<noteq> [] \<and>
           fetch_pks d (schema_name @ ''.'' @ table_name) = Inr pks \<and>
           fetch_fks d schema_name table_name = Inl e \<longrightarrow>
           fst (get_table_schema d table_name schema_name) = Inr (error_response (str e))) \<and>
      (\<forall>e. startswith (pyupper (pystrip query)) ''SELECT'' \<and>
           fetch d query (star_args params) = Inl e \<longrightarrow>
           fst (execute_query d query params) = Inr (error_response (str e))) \<and>
      (\<forall>e. \<not> startswith (pyupper (pystrip query)) ''SELECT'' \<and>
           execute d query (star_args params) = Inl e \<longrightarrow>
           fst (execute_query d query params) = Inr (error_response (str e))) \<and>
      (\<forall>e. startswith (pyupper (pystrip query)) ''SELECT'' \<and> fetch d query [] = Inl e \<longrightarrow>
           fst (execute_safe_query d query) = Inr (error_response (str e))) \<and>
      (\<exists>p. fst (get_table_schema d table_name schema_name) = Inr p) \<and>
      (\<exists>p. fst (execute_query d query params) = Inr p) \<and>
      (\<exists>p. fst (execute_safe_query d query) = Inr p)) \<and>
   (\<forall>e. connect d = Some e \<longrightarrow>
      fst (list_tables d schema_name) = Inl e \<and>
      fst (get_table_schema d table_name schema_name) = Inl e \<and>
      fst (execute_query d query params) = Inl e \<and>
      (startswith (pyupper (pystrip query)) ''SELECT'' \<longrightarrow> fst (execute_safe_query d query) = Inl e))"
proof (intro conjI impI allI)
  fix e assume "connect d = Some e"
  then have g: "get_db_connection d = Inl e"
    by (rule get_db_connection_raises)
  show "fst (list_tables d schema_name) = Inl e"
    by (simp add: list_tables_def g)
  show "fst (get_table_schema d table_name schema_name) = Inl e"
    by (simp add: get_table_schema_def g)
  show q: "fst (execute_query d query params) = Inl e" for params
    by (simp add: execute_query_def g)
  show "fst (execute_safe_query d query) = Inl e"
    if "startswith (pyupper (pystrip query)) ''SELECT''"
    using that q by (simp add: execute_safe_query_def)
next
  assume c: "connect d = None"
  then have g: "get_db_connection d = Inr ()"
    by (rule get_db_connection_ok)
  show "\<exists>p. fst (get_table_schema d table_name schema_name) = Inr p"
    using c by (rule get_table_schema_returns)
  show "\<exists>p. fst (execute_query d query params) = Inr p"
    using c by (rule execute_query_returns)
  show "\<exists>p. fst (execute_safe_query d query) = Inr p"
    using c by (rule execute_safe_query_returns)
  fix e
  show "fst (list_tables d schema_name) = Inl e" if "fetch_tables d schema_name = Inl e"
    using that by (simp add: list_tables_def list_tables_try_def g)
  show "fst (get_table_schema d table_name schema_name) = Inr (error_response (str e))"
    if "fetch_columns d schema_name table_name = Inl e"
    using that by (simp add: get_table_schema_def get_table_schema_try_def g)
  show "fst (execute_query d query params) = Inr (error_response (str e))"
    if "startswith (pyupper (pystrip query)) ''SELECT'' \<and> fetch d query (star_args params) = Inl e"
    using that by (simp add: execute_query_def execute_query_try_def g)
  show "fst (execute_query d query params) = Inr (error_response (str e))"
    if "\<not> startswith (pyupper (pystrip query)) ''SELECT'' \<and> execute d query (star_args params) = Inl e"
    using that by (simp add: execute_query_def execute_query_try_def g)
  show "fst (execute_safe_query d query) = Inr (error_response (str e))"
    if "startswith (pyupper (pystrip query)) ''SELECT'' \<and> fetch d query [] = Inl e"
    using that
    by (simp add: execute_safe_query_def execute_query_def execute_query_try_def g star_args_def)
  fix columns
  show "fst (get_table_schema d table_name schema_name) = Inr (error_response (str e))"
    if "fetch_columns d schema_name table_name = Inr columns \<and> columns \<noteq> [] \<and>
        fetch_pks d (schema_name @ ''.'' @ table_name) = Inl e"
    using that by (simp add: get_table_schema_def get_table_schema_try_def g)
  fix pks
  show "fst (get_table_schema d table_name schema_name) = Inr (error_response (str e))"
    if "fetch_columns d schema_name table_name = Inr columns \<and> columns \<noteq> [] \<and>
        fetch_pks d (schema_name @ ''.'' @ table_name) = Inr pks \<and>
        fetch_fks d schema_name table_name = Inl e"
    using that by (simp add: get_table_schema_def get_table_schema_try_def g)
qed

theorem exception_policy_witness:
  "fst (list_tables failing_driver ''public'') = Inl (PostgresError ''Syntax error'') \<and>
   fst (get_table_schema failing_driver ''users'' ''public'') =
     Inr (JObj [(''error'', JStr ''Syntax error''), (''status'', JStr ''failed'')]) \<and>
   fst (get_table_schema broken_pk_driver ''users'' ''public'') =
     Inr (JObj [(''error'', JStr ''permission denied for table pg_index''),
                (''status'', JStr ''failed'')]) \<and>
   fst (execute_query failing_driver ''SELECT * FROM invalid_syntax'' None) =
     Inr (JObj [(''error'', JStr ''Syntax error''), (''status'', JStr ''failed'')]) \<and>
   fst (execute_query failing_driver ''DELETE FROM users'' None) =
     Inr (JObj [(''error'', JStr ''Syntax error''), (''status'', JStr ''failed'')]) \<and>
   fst (execute_safe_query failing_driver ''SELECT * FROM invalid_syntax'') =
     Inr (JObj [(''error'', JStr ''Syntax error''), (''status'', JStr ''failed'')]) \<and>
   fst (list_tables unreachable_driver ''public'') = Inl (PostgresError ''Connection failed'') \<and>
   fst (execute_query unreachable_driver ''SELECT 1'' None) = Inl (PostgresError ''Connection failed'')"
proof -
  have c: "connect failing_driver = None" "connect broken_pk_driver = None"
    "connect unreachable_driver = Some (PostgresError ''Connection failed'')"
    by (simp_all add: failing_driver_def broken_pk_driver_def users_driver_def unreachable_driver_def)
  have f: "fetch_tables failing_driver ''public'' = Inl (PostgresError ''Syntax error'')"
    "fetch_columns failing_driver ''public'' ''users'' = Inl (PostgresError ''Syntax error'')"
    "fetch failing_driver ''SELECT * FROM invalid_syntax'' (star_args None) = Inl (PostgresError ''Syntax error'')"
    "fetch failing_driver ''SELECT * FROM invalid_syntax'' [] = Inl (PostgresError ''Syntax error'')"
    "execute failing_driver ''DELETE FROM users'' (star_args None) = Inl (PostgresError ''Syntax error'')"
    by (simp_all add: failing_driver_def)
  have b: "fetch_columns broken_pk_driver ''public'' ''users'' = Inr [id_column, name_column]"
    "[id_column, name_column] \<noteq> []"
    "fetch_pks broken_pk_driver (''public'' @ ''.'' @ ''users'') =
       Inl (PostgresError ''permission denied for table pg_index'')"
    by (simp_all add: broken_pk_driver_def users_driver_def)
  have s: "startswith (pyupper (pystrip ''SELECT * FROM invalid_syntax'')) ''SELECT''"
    "\<not> startswith (pyupper (pystrip ''DELETE FROM users'')) ''SELECT''"
    by code_simp+
  note p1 = exception_policy [of failing_driver "''public''" "''users''" "''SELECT * FROM invalid_syntax''" None]
  note p2 = exception_policy [of failing_driver "''public''" "''users''" "''DELETE FROM users''" None]
  note p3 = exception_policy [of broken_pk_driver "''public''" "''users''" "''SELECT 1''" None]
  note p4 = exception_policy [of unreachable_driver "''public''" "''users''" "''SELECT 1''" None]
  have "fst (list_tables failing_driver ''public'') = Inl (PostgresError ''Syntax error'')"
    using p1 c(1) f(1) by blast
  moreover have "fst (get_table_schema failing_driver ''users'' ''public'') =
       Inr (error_response (str (PostgresError ''Syntax error'')))"
    using p1 c(1) f(2) by blast
  moreover have "fst (get_table_schema broken_pk_driver ''users'' ''public'') =
       Inr (error_response (str (PostgresError ''permission denied for table pg_index'')))"
    using p3 c(2) b by blast
  moreover have "fst (execute_query failing_driver ''SELECT * FROM invalid_syntax'' None) =
       Inr (error_response (str (PostgresError ''Syntax error'')))"
    using p1 c(1) s(1) f(3) by blast
  moreover have "fst (execute_query failing_driver ''DELETE FROM users'' None) =
       Inr (error_response (str (PostgresError ''Syntax error'')))"
    using p2 c(1) s(2) f(5) by blast
  moreover have "fst (execute_safe_query failing_driver ''SELECT * FROM invalid_syntax'') =
       Inr (error_response (str (PostgresError ''Syntax error'')))"
    using p1 c(1) s(1) f(4) by blast
  moreover have "fst (list_tables unreachable_driver ''public'') = Inl (PostgresError ''Connection failed'')"
    "fst (execute_query unreachable_driver ''SELECT 1'' None) = Inl (PostgresError ''Connection failed'')"
    using p4 c(3) by blast+
  ultimately show ?thesis
    by (simp add: error_response_def)
qed

end
